theory Spec2Isabelle
  imports Complex_Main
begin

section \<open>Values and library functions\<close>

text \<open>
  Python values that travel through responses, the JSON field of the idempotency table,
  the cache and webhook payloads. A \<open>dict\<close> keeps its insertion order, so it is an
  association list.
\<close>

datatype pyval =
    PNone
  | PBool bool
  | PInt int
  | PStr string
  | PList "pyval list"
  | PDict "(string \<times> pyval) list"

text \<open>
  Exceptions the modelled code raises or catches. A \<open>ValidationError\<close> raised by
  \<open>is_valid(raise_exception=True)\<close> carries the errors of all fields, in field order.
\<close>

datatype exn =
    Http404
  | ValidationError "string list"
  | DoesNotExist
  | IntegrityError
  | HTTPError nat
  | ConnectionError
  | Timeout

text \<open>
  Functions of the Python runtime and its libraries that the source calls and does not
  define: \<open>str(Decimal)\<close>, \<open>datetime.isoformat()\<close>, \<open>str(exception)\<close>,
  \<open>str.strip()\<close>, \<open>json.dumps\<close> and \<open>json.loads\<close> (\<open>None\<close> when they
  raise). They are parameters of the model.
\<close>

record pylib =
  str_decimal :: "int \<Rightarrow> string"
  isoformat :: "nat \<Rightarrow> string"
  str_exc :: "exn \<Rightarrow> string"
  str_strip :: "string \<Rightarrow> string"
  json_dumps :: "pyval \<Rightarrow> string option"
  json_loads :: "string \<Rightarrow> pyval option"

section \<open>Request fields and decimals\<close>

text \<open>
  A field of a request body as the serializer meets it: absent, present with a value the
  field cannot decode (wrong type, \<open>null\<close>, not a number), or present with a decoded
  value.
\<close>

datatype 'a field = Missing | Invalid | Given 'a

text \<open>
  A finite Python \<open>Decimal\<close> as \<open>as_tuple()\<close> shows it: sign, digits and exponent.
  The amount of a request is such a value; an amount in a table row is quantized to two
  places and held as its number of hundredths.
\<close>

record decimal =
  d_negative :: bool
  d_digits :: "nat list"
  d_exponent :: int

definition of_digits :: "nat list \<Rightarrow> nat" where
  "of_digits ds = fold (\<lambda>d acc. 10 * acc + d) ds 0"

text \<open>
  \<open>DecimalField.validate_precision\<close> for a field with \<open>max_digits\<close> and
  \<open>decimal_places\<close>, as the model's \<open>DecimalField(max_digits=12, decimal_places=2)\<close>
  gives them to the serializer; \<open>Some code\<close> is the failure it raises.
\<close>

definition total_digits :: "decimal \<Rightarrow> int" where
  "total_digits v =
     (let n = int (length (d_digits v)); e = d_exponent v
      in if e \<ge> 0 then n + e else if n > \<bar>e\<bar> then n else \<bar>e\<bar>)"

definition whole_digits :: "decimal \<Rightarrow> int" where
  "whole_digits v =
     (let n = int (length (d_digits v)); e = d_exponent v
      in if e \<ge> 0 then n + e else if n > \<bar>e\<bar> then n - \<bar>e\<bar> else 0)"

definition decimal_places :: "decimal \<Rightarrow> int" where
  "decimal_places v = (let e = d_exponent v in if e \<ge> 0 then 0 else \<bar>e\<bar>)"

definition validate_precision :: "int \<Rightarrow> int \<Rightarrow> decimal \<Rightarrow> string option" where
  "validate_precision max_digits places v =
     (if total_digits v > max_digits then Some ''max_digits''
      else if decimal_places v > places then Some ''max_decimal_places''
      else if whole_digits v > max_digits - places then Some ''max_whole_digits''
      else None)"

text \<open>
  \<open>DecimalField.quantize\<close> to two places, as a number of hundredths. It runs on values
  that passed \<open>validate_precision\<close>, whose exponent is at least \<open>-2\<close>.
\<close>

definition quantize :: "decimal \<Rightarrow> int" where
  "quantize v =
     (let c = int (of_digits (d_digits v)) * 10 ^ nat (d_exponent v + 2)
      in if d_negative v then - c else c)"

text \<open>The errors of one field: a field either fails with one error or yields its value.\<close>

fun field_errors :: "string + 'a \<Rightarrow> string list" where
  "field_errors (Inl e) = [e]"
| "field_errors (Inr v) = []"

section \<open>models.py\<close>

text \<open>
  One record per model class. An amount is a \<open>DecimalField(max_digits=12,
  decimal_places=2)\<close>, held as its number of hundredths; a \<open>DateTimeField\<close> is a point
  on a clock of natural numbers; a foreign key is the primary key it refers to.
\<close>

record PaymentKey =
  pk_id :: nat
  pk_merchant :: nat
  pk_key :: string
  pk_is_active :: bool
  pk_created_at :: nat

record Transaction =
  tx_id :: nat
  tx_merchant :: nat
  tx_amount :: int
  tx_currency :: string
  tx_description :: string
  tx_status :: string
  tx_created_at :: nat
  tx_updated_at :: nat

record Refund =
  rf_id :: nat
  rf_transaction :: nat
  rf_amount :: int
  rf_reason :: string
  rf_status :: string
  rf_created_at :: nat

record Webhook =
  wb_id :: nat
  wb_merchant :: nat
  wb_url :: string
  wb_secret :: string
  wb_created_at :: nat

record IdempotencyKey =
  ik_key :: string
  ik_method :: string
  ik_path :: string
  ik_response_status :: "int option"
  ik_response_body :: pyval
  ik_created_at :: nat

text \<open>Jobs handed to the Celery queue by \<open>.delay(...)\<close>.\<close>

datatype job =
    process_transaction_job nat
  | send_webhooks_job nat
  | deliver_webhook_job nat pyval

text \<open>
  Cache keys. \<open>transaction_key pk\<close> is \<open>f"transaction:{pk}"\<close> and
  \<open>merchant_transactions_key m page params\<close> is
  \<open>f"merchant:{m}:transactions:page:{page}:{params}"\<close>.
\<close>

datatype cache_key =
    transaction_key nat
  | merchant_transactions_key nat string string

text \<open>
  The state the views and tasks work on: the tables (rows in primary-key order), the
  \<open>Merchant\<close> table as the map from a user id to its merchant id (a one-to-one field),
  the cache (a value and the time it expires) and the job queue.
\<close>

record world =
  merchants :: "nat \<rightharpoonup> nat"
  payment_keys :: "PaymentKey list"
  transactions :: "Transaction list"
  refunds :: "Refund list"
  webhooks :: "Webhook list"
  idempotency_keys :: "IdempotencyKey list"
  cache :: "cache_key \<rightharpoonup> (pyval \<times> nat)"
  queue :: "job list"

text \<open>The next value of an auto-increment primary key.\<close>

definition next_id :: "nat list \<Rightarrow> nat" where
  "next_id ids = Suc (fold max ids 0)"

text \<open>\<open>Transaction.objects.get(id=...)\<close>; \<open>None\<close> is \<open>Transaction.DoesNotExist\<close>.\<close>

definition get_transaction :: "nat \<Rightarrow> world \<Rightarrow> Transaction option" where
  "get_transaction transaction_id w = find (\<lambda>t. tx_id t = transaction_id) (transactions w)"

text \<open>\<open>tx.save()\<close>: the row with the object's primary key is rewritten from the object.\<close>

definition save_transaction :: "Transaction \<Rightarrow> Transaction list \<Rightarrow> Transaction list" where
  "save_transaction tx rows = map (\<lambda>t. if tx_id t = tx_id tx then tx else t) rows"

section \<open>tasks.py\<close>

subsection \<open>process_transaction\<close>

text \<open>
  \<open>rnd\<close> is the value of \<open>random.random()\<close> and \<open>now\<close> the clock at \<open>tx.save()\<close>
  (\<open>updated_at\<close> is \<open>auto_now\<close>). The sleep before the atomic block changes no state.
  A missing row is logged and the task returns.
\<close>

definition process_transaction :: "real \<Rightarrow> nat \<Rightarrow> nat \<Rightarrow> world \<Rightarrow> world" where
  "process_transaction rnd now transaction_id w =
     (case get_transaction transaction_id w of
        None \<Rightarrow> w
      | Some tx \<Rightarrow>
          let tx' = tx\<lparr>tx_status := (if rnd > 0.2 then ''succeeded'' else ''failed''),
                      tx_updated_at := now\<rparr>
          in w\<lparr>transactions := save_transaction tx' (transactions w),
               queue := queue w @ [send_webhooks_job (tx_id tx')]\<rparr>)"

subsection \<open>send_webhooks\<close>

definition payload :: "pylib \<Rightarrow> Transaction \<Rightarrow> pyval" where
  "payload py tx = PDict
     [(''id'', PInt (int (tx_id tx))),
      (''status'', PStr (tx_status tx)),
      (''amount'', PStr (str_decimal py (tx_amount tx))),
      (''currency'', PStr (tx_currency tx)),
      (''description'', PStr (tx_description tx)),
      (''created_at'', PStr (isoformat py (tx_created_at tx))),
      (''updated_at'', PStr (isoformat py (tx_updated_at tx)))]"

definition send_webhooks :: "pylib \<Rightarrow> nat \<Rightarrow> world \<Rightarrow> world" where
  "send_webhooks py transaction_id w =
     (case get_transaction transaction_id w of
        None \<Rightarrow> w
      | Some tx \<Rightarrow>
          let whs = filter (\<lambda>wb. wb_merchant wb = tx_merchant tx) (webhooks w)
          in if whs = [] then w
             else w\<lparr>queue := queue w @ map (\<lambda>wb. deliver_webhook_job (wb_id wb) (payload py tx)) whs\<rparr>)"

text \<open>The keys of a dict, in order, and the lookup of one.\<close>

fun dict_keys :: "pyval \<Rightarrow> string list" where
  "dict_keys (PDict kvs) = map fst kvs"
| "dict_keys _ = []"

fun dict_get :: "pyval \<Rightarrow> string \<Rightarrow> pyval option" where
  "dict_get (PDict kvs) k = map_of kvs k"
| "dict_get _ k = None"

subsection \<open>deliver_webhook and the retry policy of WebhookTask\<close>

text \<open>
  \<open>requests.post(url, json=payload, timeout=10)\<close> either returns a response with a
  status code or raises a \<open>RequestException\<close>; \<open>resp.raise_for_status()\<close> raises
  \<open>HTTPError\<close> for the status codes 400 to 599 and for no other.
\<close>

datatype http_result = StatusCode nat | RaisedConnectionError | RaisedTimeout

definition raise_for_status :: "nat \<Rightarrow> exn option" where
  "raise_for_status c = (if 400 \<le> c \<and> c < 600 then Some (HTTPError c) else None)"

text \<open>
  One run of the task body: \<open>None\<close> when it returns, \<open>Some e\<close> when it raises \<open>e\<close>
  (each \<open>except\<close> clause logs and re-raises). \<open>post retries url payload\<close> is what the
  network answers to the call made by the run with \<open>self.request.retries = retries\<close>.
\<close>

definition deliver_webhook ::
  "(nat \<Rightarrow> string \<Rightarrow> pyval \<Rightarrow> http_result) \<Rightarrow> nat \<Rightarrow> nat \<Rightarrow> pyval \<Rightarrow> world \<Rightarrow> exn option" where
  "deliver_webhook post retries webhook_id pl w =
     (case find (\<lambda>wb. wb_id wb = webhook_id) (webhooks w) of
        None \<Rightarrow> Some DoesNotExist
      | Some wb \<Rightarrow>
          (case post retries (wb_url wb) pl of
             StatusCode c \<Rightarrow> raise_for_status c
           | RaisedConnectionError \<Rightarrow> Some ConnectionError
           | RaisedTimeout \<Rightarrow> Some Timeout))"

text \<open>
  \<open>WebhookTask\<close> sets \<open>autoretry_for = (Exception,)\<close> and
  \<open>retry_kwargs = {'max_retries': 2, 'countdown': 3}\<close>. Celery then runs the body; when
  it raises, \<open>Task.retry\<close> re-raises the exception if \<open>request.retries + 1 > max_retries\<close>
  (the task fails and \<open>on_failure\<close> runs) and otherwise schedules the task again after
  \<open>countdown\<close>, with \<open>request.retries\<close> one higher. The trace lists what happens.
\<close>

record retry_kwargs =
  max_retries :: nat
  countdown :: nat

definition WebhookTask_retry_kwargs :: retry_kwargs where
  "WebhookTask_retry_kwargs = \<lparr>max_retries = 2, countdown = 3\<rparr>"

datatype event =
    Attempt nat
  | Countdown nat
  | Succeeded
  | on_failure exn

function run_task :: "retry_kwargs \<Rightarrow> (nat \<Rightarrow> exn option) \<Rightarrow> nat \<Rightarrow> event list" where
  "run_task kw body retries =
     (case body retries of
        None \<Rightarrow> [Attempt retries, Succeeded]
      | Some exc \<Rightarrow>
          if retries + 1 > max_retries kw then [Attempt retries, on_failure exc]
          else Attempt retries # Countdown (countdown kw) # run_task kw body (retries + 1))"
  by pat_completeness auto
termination
  by (relation "measure (\<lambda>(kw, body, retries). Suc (max_retries kw) - retries)") auto

definition deliver_webhook_task ::
  "(nat \<Rightarrow> string \<Rightarrow> pyval \<Rightarrow> http_result) \<Rightarrow> nat \<Rightarrow> pyval \<Rightarrow> world \<Rightarrow> event list" where
  "deliver_webhook_task post webhook_id pl w =
     run_task WebhookTask_retry_kwargs (\<lambda>retries. deliver_webhook post retries webhook_id pl w) 0"

fun is_attempt :: "event \<Rightarrow> bool" where
  "is_attempt (Attempt n) = True"
| "is_attempt _ = False"

section \<open>serializers.py and views.py\<close>

text \<open>
  A DRF \<open>Response(data, status)\<close>; a Django template response, which has
  \<open>render()\<close> and a content but no \<open>data\<close>; or a plain \<open>HttpResponse\<close>, which
  has a content and no \<open>render()\<close>.
\<close>

datatype response =
    Response pyval int
  | TemplateResponse string int
  | HttpResponse string int

fun status_code :: "response \<Rightarrow> int" where
  "status_code (Response d s) = s"
| "status_code (TemplateResponse c s) = s"
| "status_code (HttpResponse c s) = s"

definition standard_response :: "bool \<Rightarrow> pyval \<Rightarrow> pyval \<Rightarrow> int \<Rightarrow> response" where
  "standard_response success dat err code =
     Response (PDict [(''success'', PBool success), (''data'', dat), (''error'', err)]) code"

text \<open>Python's truth value of an object, as \<open>if cached:\<close> reads it.\<close>

fun truthy :: "pyval \<Rightarrow> bool" where
  "truthy PNone = False"
| "truthy (PBool b) = b"
| "truthy (PInt n) = (n \<noteq> 0)"
| "truthy (PStr s) = (s \<noteq> [])"
| "truthy (PList xs) = (xs \<noteq> [])"
| "truthy (PDict kvs) = (kvs \<noteq> [])"

subsection \<open>The cache\<close>

definition cache_get :: "nat \<Rightarrow> cache_key \<Rightarrow> world \<Rightarrow> pyval option" where
  "cache_get now k w =
     (case cache w k of
        None \<Rightarrow> None
      | Some (v, expires) \<Rightarrow> if now < expires then Some v else None)"

definition cache_set :: "nat \<Rightarrow> cache_key \<Rightarrow> pyval \<Rightarrow> nat \<Rightarrow> world \<Rightarrow> world" where
  "cache_set now k v timeout w = w\<lparr>cache := (cache w)(k \<mapsto> (v, now + timeout))\<rparr>"

definition cache_delete :: "cache_key \<Rightarrow> world \<Rightarrow> world" where
  "cache_delete k w = w\<lparr>cache := (cache w)(k := None)\<rparr>"

text \<open>\<open>cache.delete_pattern(f"merchant:{m}:transactions:*")\<close>.\<close>

definition cache_delete_pattern :: "nat \<Rightarrow> world \<Rightarrow> world" where
  "cache_delete_pattern m w =
     w\<lparr>cache := (\<lambda>k. case k of
                       merchant_transactions_key m' page params \<Rightarrow>
                         if m' = m then None else cache w k
                     | transaction_key pk \<Rightarrow> cache w k)\<rparr>"

subsection \<open>Refunds\<close>

text \<open>
  \<open>tx.refund\<close>, the reverse side of the one-to-one field: \<open>hasattr(tx, 'refund')\<close>
  is whether this is not \<open>None\<close>.
\<close>

definition get_refund :: "Transaction \<Rightarrow> world \<Rightarrow> Refund option" where
  "get_refund tx w = find (\<lambda>r. rf_transaction r = tx_id tx) (refunds w)"

text \<open>
  \<open>RefundSerializer\<close>: the fields \<open>id\<close>, \<open>status\<close> and \<open>created_at\<close> are read-only,
  so a value the client sends for them never reaches \<open>validated_data\<close>. The request
  carries the decoded fields; \<open>rr_status\<close> is what the client sent as \<open>status\<close>, if
  anything.
\<close>

record refund_request =
  rr_user :: nat
  rr_transaction :: "nat field"
  rr_amount :: "decimal field"
  rr_reason :: "string field"
  rr_status :: "string option"

text \<open>
  \<open>RefundSerializer.validate_amount\<close>: it raises for a value that is not above zero and
  returns the value otherwise.
\<close>

definition RefundSerializer_validate_amount :: "int \<Rightarrow> string + int" where
  "RefundSerializer_validate_amount v =
     (if v \<le> 0 then Inl ''Refund amount must be greater than zero'' else Inr v)"

text \<open>
  The three writable fields, each with the checks the \<open>ModelSerializer\<close> derives from
  \<open>models.py\<close>. \<open>transaction\<close> is a required primary key of a row, and, the model
  field being one-to-one, must not be the transaction of a refund already. \<open>amount\<close> is
  a required decimal of at most 12 digits, 2 of them decimal places, then quantized and
  passed to \<open>validate_amount\<close>. \<open>reason\<close> is optional and may be blank; whitespace is
  stripped and at most 255 characters may remain.
\<close>

definition RefundSerializer_transaction :: "nat field \<Rightarrow> world \<Rightarrow> string + Transaction" where
  "RefundSerializer_transaction f w =
     (case f of
        Missing \<Rightarrow> Inl ''required''
      | Invalid \<Rightarrow> Inl ''incorrect_type''
      | Given pk \<Rightarrow>
          (case get_transaction pk w of
             None \<Rightarrow> Inl ''does_not_exist''
           | Some tx \<Rightarrow> if get_refund tx w \<noteq> None then Inl ''unique'' else Inr tx))"

definition RefundSerializer_amount :: "decimal field \<Rightarrow> string + int" where
  "RefundSerializer_amount f =
     (case f of
        Missing \<Rightarrow> Inl ''required''
      | Invalid \<Rightarrow> Inl ''invalid''
      | Given d \<Rightarrow>
          (case validate_precision 12 2 d of
             Some e \<Rightarrow> Inl e
           | None \<Rightarrow> RefundSerializer_validate_amount (quantize d)))"

definition RefundSerializer_reason :: "pylib \<Rightarrow> string field \<Rightarrow> string + string option" where
  "RefundSerializer_reason py f =
     (case f of
        Missing \<Rightarrow> Inr None
      | Invalid \<Rightarrow> Inl ''invalid''
      | Given s \<Rightarrow>
          if length (str_strip py s) > 255 then Inl ''max_length''
          else Inr (Some (str_strip py s)))"

text \<open>
  \<open>serializer.is_valid(raise_exception=True)\<close>: every field is checked, and the
  \<open>ValidationError\<close> carries the errors of all of them. The result is
  \<open>validated_data\<close>: the transaction, the amount and the reason, if one was sent.
\<close>

definition RefundSerializer_is_valid ::
  "pylib \<Rightarrow> refund_request \<Rightarrow> world \<Rightarrow> exn + (Transaction \<times> int \<times> string option)" where
  "RefundSerializer_is_valid py request w =
     (let t = RefundSerializer_transaction (rr_transaction request) w;
          a = RefundSerializer_amount (rr_amount request);
          r = RefundSerializer_reason py (rr_reason request)
      in case t of
           Inl e \<Rightarrow> Inl (ValidationError (field_errors t @ field_errors a @ field_errors r))
         | Inr tx \<Rightarrow>
             (case a of
                Inl e \<Rightarrow> Inl (ValidationError (field_errors t @ field_errors a @ field_errors r))
              | Inr v \<Rightarrow>
                  (case r of
                     Inl e \<Rightarrow>
                       Inl (ValidationError (field_errors t @ field_errors a @ field_errors r))
                   | Inr reason \<Rightarrow> Inr (tx, v, reason))))"

definition RefundSerializer_data :: "pylib \<Rightarrow> Refund \<Rightarrow> pyval" where
  "RefundSerializer_data py r = PDict
     [(''id'', PInt (int (rf_id r))),
      (''transaction'', PInt (int (rf_transaction r))),
      (''amount'', PStr (str_decimal py (rf_amount r))),
      (''reason'', PStr (rf_reason r)),
      (''status'', PStr (rf_status r)),
      (''created_at'', PStr (isoformat py (rf_created_at r)))]"

text \<open>
  \<open>Refund.objects.create(...)\<close>: a status that is not given is the model's default,
  \<open>pending\<close>.
\<close>

definition Refund_objects_create ::
  "nat \<Rightarrow> nat \<Rightarrow> int \<Rightarrow> string \<Rightarrow> string option \<Rightarrow> world \<Rightarrow> Refund \<times> world" where
  "Refund_objects_create now transaction amount reason status w =
     (let refund = \<lparr>rf_id = next_id (map rf_id (refunds w)),
                    rf_transaction = transaction,
                    rf_amount = amount,
                    rf_reason = reason,
                    rf_status = (case status of None \<Rightarrow> ''pending'' | Some s \<Rightarrow> s),
                    rf_created_at = now\<rparr>
      in (refund, w\<lparr>refunds := refunds w @ [refund]\<rparr>))"

text \<open>
  \<open>RefundCreateView.post\<close>. Every exception raised in the body is caught by the
  \<open>except Exception\<close> clause, which answers 400 with \<open>str(e)\<close>.
\<close>

definition RefundCreateView_post ::
  "pylib \<Rightarrow> nat \<Rightarrow> refund_request \<Rightarrow> world \<Rightarrow> response \<times> world" where
  "RefundCreateView_post py now request w =
     (case merchants w (rr_user request) of
        None \<Rightarrow> (standard_response False PNone (PStr (str_exc py Http404)) 400, w)
      | Some merchant \<Rightarrow>
          (case RefundSerializer_is_valid py request w of
             Inl e \<Rightarrow> (standard_response False PNone (PStr (str_exc py e)) 400, w)
           | Inr (vtx, refund_amount, reason) \<Rightarrow>
               (case find (\<lambda>t. tx_id t = tx_id vtx \<and> tx_merchant t = merchant) (transactions w) of
                  None \<Rightarrow> (standard_response False PNone (PStr (str_exc py Http404)) 400, w)
                | Some tx \<Rightarrow>
                    if tx_status tx \<noteq> ''succeeded'' then
                      (standard_response False PNone
                         (PStr ''Only succeeded transactions can be refunded'') 400, w)
                    else if get_refund tx w \<noteq> None then
                      (standard_response False PNone (PStr ''Transaction already refunded'') 400, w)
                    else if refund_amount > tx_amount tx then
                      (standard_response False PNone
                         (PStr (''Refund amount cannot exceed transaction amount of ''
                                @ str_decimal py (tx_amount tx))) 400, w)
                    else
                      (case Refund_objects_create now (tx_id tx) refund_amount
                              (case reason of None \<Rightarrow> [] | Some s \<Rightarrow> s)
                              (Some ''succeeded'') w of
                         (refund, w1) \<Rightarrow>
                           let w2 = cache_delete_pattern merchant
                                      (cache_delete (transaction_key (tx_id tx)) w1)
                           in (standard_response True (RefundSerializer_data py refund) PNone 201,
                               w2)))))"

subsection \<open>Webhook endpoints\<close>

text \<open>
  \<open>WebhookSerializer\<close> has the fields \<open>id\<close>, \<open>url\<close> and \<open>created_at\<close>. The
  \<open>URLField\<close>'s own validation is Django's (\<open>url_field_valid\<close>, a parameter);
  \<open>validate_url\<close> is the serializer's.
\<close>

record webhook_request =
  wr_user :: nat
  wr_url :: string

definition startswith :: "string \<Rightarrow> string \<Rightarrow> bool" where
  "startswith s p = (take (length p) s = p)"

definition validate_url :: "string \<Rightarrow> exn + string" where
  "validate_url v =
     (if \<not> (startswith v ''http://'' \<or> startswith v ''https://'')
      then Inl (ValidationError [''URL must start with http:// or https://''])
      else Inr v)"

definition WebhookSerializer_is_valid :: "(string \<Rightarrow> bool) \<Rightarrow> webhook_request \<Rightarrow> exn + string" where
  "WebhookSerializer_is_valid url_field_valid request =
     (if \<not> url_field_valid (wr_url request) then Inl (ValidationError [''invalid''])
      else validate_url (wr_url request))"

definition WebhookSerializer_data :: "pylib \<Rightarrow> Webhook \<Rightarrow> pyval" where
  "WebhookSerializer_data py wb = PDict
     [(''id'', PInt (int (wb_id wb))),
      (''url'', PStr (wb_url wb)),
      (''created_at'', PStr (isoformat py (wb_created_at wb)))]"

text \<open>
  \<open>WebhookListCreateView.post\<close>; \<open>secret\<close> is the value \<open>secrets.token_urlsafe(16)\<close>
  returns.
\<close>

definition WebhookListCreateView_post ::
  "pylib \<Rightarrow> (string \<Rightarrow> bool) \<Rightarrow> nat \<Rightarrow> string \<Rightarrow> webhook_request \<Rightarrow> world \<Rightarrow> response \<times> world" where
  "WebhookListCreateView_post py url_field_valid now secret request w =
     (case merchants w (wr_user request) of
        None \<Rightarrow> (standard_response False PNone (PStr (str_exc py Http404)) 400, w)
      | Some merchant \<Rightarrow>
          (case WebhookSerializer_is_valid url_field_valid request of
             Inl e \<Rightarrow> (standard_response False PNone (PStr (str_exc py e)) 400, w)
           | Inr url \<Rightarrow>
               let wb = \<lparr>wb_id = next_id (map wb_id (webhooks w)),
                         wb_merchant = merchant,
                         wb_url = url,
                         wb_secret = secret,
                         wb_created_at = now\<rparr>
               in (standard_response True (WebhookSerializer_data py wb) PNone 201,
                   w\<lparr>webhooks := webhooks w @ [wb]\<rparr>)))"

definition WebhookListCreateView_get :: "pylib \<Rightarrow> nat \<Rightarrow> world \<Rightarrow> response" where
  "WebhookListCreateView_get py user w =
     (case merchants w user of
        None \<Rightarrow> standard_response False PNone (PStr ''Failed to retrieve webhooks'') 500
      | Some merchant \<Rightarrow>
          standard_response True
            (PList (map (WebhookSerializer_data py)
                      (filter (\<lambda>wb. wb_merchant wb = merchant) (webhooks w))))
            PNone 200)"

subsection \<open>Transaction detail\<close>

text \<open>
  \<open>TransactionDetailSerializer(instance).data\<close>: \<open>payment_key\<close> is write-only and is
  not part of the output; \<open>refund\<close> is the nested refund or \<open>None\<close>.
\<close>

definition TransactionDetailSerializer_data :: "pylib \<Rightarrow> Transaction \<Rightarrow> world \<Rightarrow> pyval" where
  "TransactionDetailSerializer_data py tx w = PDict
     [(''id'', PInt (int (tx_id tx))),
      (''amount'', PStr (str_decimal py (tx_amount tx))),
      (''currency'', PStr (tx_currency tx)),
      (''description'', PStr (tx_description tx)),
      (''status'', PStr (tx_status tx)),
      (''created_at'', PStr (isoformat py (tx_created_at tx))),
      (''updated_at'', PStr (isoformat py (tx_updated_at tx))),
      (''refund'', (case get_refund tx w of None \<Rightarrow> PNone | Some r \<Rightarrow> RefundSerializer_data py r))]"

text \<open>
  \<open>self.get_object()\<close> on \<open>get_queryset()\<close>: the row with the primary key of the URL
  among the rows of the requesting user's merchant. \<open>None\<close> when anything raises
  (\<open>Http404\<close> for the merchant or for the row).
\<close>

definition TransactionDetailView_get_object :: "nat \<Rightarrow> nat \<Rightarrow> world \<Rightarrow> Transaction option" where
  "TransactionDetailView_get_object user pk w =
     (case merchants w user of
        None \<Rightarrow> None
      | Some merchant \<Rightarrow>
          find (\<lambda>t. tx_id t = pk) (filter (\<lambda>t. tx_merchant t = merchant) (transactions w)))"

text \<open>
  \<open>TransactionDetailView.retrieve\<close>: the cache is read under the key
  \<open>f"transaction:{pk}"\<close> before the queryset is touched.
\<close>

definition TransactionDetailView_retrieve ::
  "pylib \<Rightarrow> nat \<Rightarrow> nat \<Rightarrow> nat \<Rightarrow> world \<Rightarrow> response \<times> world" where
  "TransactionDetailView_retrieve py now user pk w =
     (let cache_key = transaction_key pk;
          cached = cache_get now cache_key w
      in if (case cached of None \<Rightarrow> False | Some v \<Rightarrow> truthy v)
         then (standard_response True (case cached of None \<Rightarrow> PNone | Some v \<Rightarrow> v) PNone 200, w)
         else
           (case TransactionDetailView_get_object user pk w of
              None \<Rightarrow> (standard_response False PNone (PStr ''Transaction not found'') 404, w)
            | Some instance \<Rightarrow>
                let dat = TransactionDetailSerializer_data py instance w
                in (standard_response True dat PNone 200, cache_set now cache_key dat 30 w)))"

section \<open>middleware.py\<close>

text \<open>
  What the middleware reads of a request: the method, the path and the
  \<open>Idempotency-Key\<close> header (\<open>None\<close> when absent). The user and the body are for the
  view behind it.
\<close>

record 'b request =
  rq_method :: string
  rq_path :: string
  rq_idempotency_key :: "string option"
  rq_user :: nat
  rq_data :: 'b

text \<open>\<open>IdempotencyKey.objects.select_for_update().filter(key=key).first()\<close>.\<close>

definition get_idempotency_key :: "string \<Rightarrow> world \<Rightarrow> IdempotencyKey option" where
  "get_idempotency_key key w = find (\<lambda>r. ik_key r = key) (idempotency_keys w)"

text \<open>
  \<open>try: data = json.loads(existing.response_body) except Exception: data =
  existing.response_body\<close>. \<open>json.loads\<close> raises on anything that is not a string, and
  on a string that is not JSON.
\<close>

fun decode_body :: "pylib \<Rightarrow> pyval \<Rightarrow> pyval" where
  "decode_body py (PStr s) = (case json_loads py s of Some v \<Rightarrow> v | None \<Rightarrow> PStr s)"
| "decode_body py v = v"

text \<open>\<open>Response(data=data, status=existing.response_status)\<close>; a status of \<open>None\<close> is 200.\<close>

definition cached_response :: "pylib \<Rightarrow> IdempotencyKey \<Rightarrow> response" where
  "cached_response py existing =
     Response (decode_body py (ik_response_body existing))
       (case ik_response_status existing of None \<Rightarrow> 200 | Some s \<Rightarrow> s)"

text \<open>
  The body the middleware stores. Inside one \<open>try\<close> it calls \<open>response.render()\<close>,
  then takes \<open>json.dumps(response.data)\<close> when the response has \<open>data\<close> and the
  decoded content otherwise; when anything there raises (\<open>json.dumps\<close>, or
  \<open>render\<close> on a response that has none) the body is the dump of a fixed message.
\<close>

definition failed_to_capture :: string where
  \<open>failed_to_capture = ''{"message": "Failed to capture response"}''\<close>

definition extract_body :: "pylib \<Rightarrow> response \<Rightarrow> string" where
  "extract_body py response =
     (case response of
        Response d s \<Rightarrow> (case json_dumps py d of Some b \<Rightarrow> b | None \<Rightarrow> failed_to_capture)
      | TemplateResponse c s \<Rightarrow> c
      | HttpResponse c s \<Rightarrow> failed_to_capture)"

text \<open>\<open>IdempotencyKey.objects.update_or_create(key=key, defaults={...})\<close>.\<close>

definition update_or_create ::
  "nat \<Rightarrow> string \<Rightarrow> string \<Rightarrow> string \<Rightarrow> int \<Rightarrow> pyval \<Rightarrow> world \<Rightarrow> world" where
  "update_or_create now key method path code body w =
     (case get_idempotency_key key w of
        None \<Rightarrow>
          w\<lparr>idempotency_keys := idempotency_keys w @
               [\<lparr>ik_key = key, ik_method = method, ik_path = path,
                 ik_response_status = Some code, ik_response_body = body,
                 ik_created_at = now\<rparr>]\<rparr>
      | Some existing \<Rightarrow>
          w\<lparr>idempotency_keys :=
               map (\<lambda>r. if ik_key r = key
                         then r\<lparr>ik_method := method, ik_path := path,
                                ik_response_status := Some code, ik_response_body := body\<rparr>
                         else r)
                   (idempotency_keys w)\<rparr>)"

text \<open>
  \<open>IdempotencyMiddleware.__call__\<close>. \<open>get_response\<close> is the view behind the
  middleware: it answers the request and may change the state. The tables are held in
  memory here, so the two \<open>except Exception\<close> clauses around the database calls have
  nothing to catch.
\<close>

definition IdempotencyMiddleware_call ::
  "pylib \<Rightarrow> nat \<Rightarrow> ('b request \<Rightarrow> world \<Rightarrow> response \<times> world) \<Rightarrow> 'b request \<Rightarrow> world
     \<Rightarrow> response \<times> world" where
  "IdempotencyMiddleware_call py now get_response request w =
     (case rq_idempotency_key request of
        None \<Rightarrow> get_response request w
      | Some key \<Rightarrow>
          if key \<noteq> [] \<and> (rq_method request = ''POST'' \<or> rq_method request = ''PUT'') then
            (case (case get_idempotency_key key w of
                     None \<Rightarrow> None
                   | Some existing \<Rightarrow>
                       if ik_response_body existing \<noteq> PNone then Some existing else None) of
               Some existing \<Rightarrow> (cached_response py existing, w)
             | None \<Rightarrow>
                 (case get_response request w of
                    (response, w1) \<Rightarrow>
                      (response,
                       update_or_create now key (rq_method request) (rq_path request)
                         (status_code response) (PStr (extract_body py response)) w1)))
          else get_response request w)"

section \<open>views.py: transaction creation\<close>

text \<open>The body of a creation request, field by field.\<close>

record transaction_data =
  td_payment_key :: "string field"
  td_amount :: "decimal field"
  td_currency :: "string field"
  td_description :: "string field"

text \<open>
  \<open>TransactionDetailSerializer.validate_amount\<close> and \<open>validate_payment_key\<close>; the
  latter leaves the key's row in the serializer's context.
\<close>

definition TransactionDetailSerializer_validate_amount :: "int \<Rightarrow> string + int" where
  "TransactionDetailSerializer_validate_amount v =
     (if v \<le> 0 then Inl ''Transaction amount must be greater than zero'' else Inr v)"

definition get_payment_key :: "string \<Rightarrow> world \<Rightarrow> PaymentKey option" where
  "get_payment_key v w = find (\<lambda>k. pk_key k = v \<and> pk_is_active k) (payment_keys w)"

definition validate_payment_key :: "string \<Rightarrow> world \<Rightarrow> string + PaymentKey" where
  "validate_payment_key v w =
     (case get_payment_key v w of
        None \<Rightarrow> Inl ''Invalid or inactive payment key''
      | Some k \<Rightarrow> Inr k)"

text \<open>
  The four writable fields with the checks derived from \<open>models.py\<close> and from the
  serializer's own declarations. \<open>amount\<close>: a required decimal of at most 12 digits, 2
  of them decimal places. \<open>currency\<close>: required, not blank, at most 10 characters.
  \<open>description\<close>: optional, may be blank. \<open>payment_key\<close>: required and not blank.
  Character fields have their whitespace stripped first.
\<close>

definition TransactionDetailSerializer_amount :: "decimal field \<Rightarrow> string + int" where
  "TransactionDetailSerializer_amount f =
     (case f of
        Missing \<Rightarrow> Inl ''required''
      | Invalid \<Rightarrow> Inl ''invalid''
      | Given d \<Rightarrow>
          (case validate_precision 12 2 d of
             Some e \<Rightarrow> Inl e
           | None \<Rightarrow> TransactionDetailSerializer_validate_amount (quantize d)))"

definition TransactionDetailSerializer_currency :: "pylib \<Rightarrow> string field \<Rightarrow> string + string" where
  "TransactionDetailSerializer_currency py f =
     (case f of
        Missing \<Rightarrow> Inl ''required''
      | Invalid \<Rightarrow> Inl ''invalid''
      | Given s \<Rightarrow>
          if str_strip py s = [] then Inl ''blank''
          else if length (str_strip py s) > 10 then Inl ''max_length''
          else Inr (str_strip py s))"

definition TransactionDetailSerializer_description ::
  "pylib \<Rightarrow> string field \<Rightarrow> string + string option" where
  "TransactionDetailSerializer_description py f =
     (case f of
        Missing \<Rightarrow> Inr None
      | Invalid \<Rightarrow> Inl ''invalid''
      | Given s \<Rightarrow> Inr (Some (str_strip py s)))"

definition TransactionDetailSerializer_payment_key ::
  "pylib \<Rightarrow> string field \<Rightarrow> world \<Rightarrow> string + PaymentKey" where
  "TransactionDetailSerializer_payment_key py f w =
     (case f of
        Missing \<Rightarrow> Inl ''required''
      | Invalid \<Rightarrow> Inl ''invalid''
      | Given s \<Rightarrow>
          if str_strip py s = [] then Inl ''blank''
          else validate_payment_key (str_strip py s) w)"

text \<open>
  \<open>serializer.is_valid(raise_exception=True)\<close>. The result is \<open>validated_data\<close> (the
  amount, the currency and the description, if one was sent) and the payment key's row
  from the context.
\<close>

definition TransactionDetailSerializer_is_valid ::
  "pylib \<Rightarrow> transaction_data \<Rightarrow> world \<Rightarrow> exn + (int \<times> string \<times> string option \<times> PaymentKey)" where
  "TransactionDetailSerializer_is_valid py d w =
     (let a = TransactionDetailSerializer_amount (td_amount d);
          c = TransactionDetailSerializer_currency py (td_currency d);
          s = TransactionDetailSerializer_description py (td_description d);
          p = TransactionDetailSerializer_payment_key py (td_payment_key d) w;
          errors = field_errors a @ field_errors c @ field_errors s @ field_errors p
      in case a of
           Inl e \<Rightarrow> Inl (ValidationError errors)
         | Inr amount \<Rightarrow>
             (case c of
                Inl e \<Rightarrow> Inl (ValidationError errors)
              | Inr currency \<Rightarrow>
                  (case s of
                     Inl e \<Rightarrow> Inl (ValidationError errors)
                   | Inr description \<Rightarrow>
                       (case p of
                          Inl e \<Rightarrow> Inl (ValidationError errors)
                        | Inr payment_key \<Rightarrow>
                            Inr (amount, currency, description, payment_key)))))"

text \<open>
  The view's own look at the idempotency table: \<open>if existing and
  existing.response_body\<close> reads the truth value of the stored body.
\<close>

definition existing_response :: "string option \<Rightarrow> world \<Rightarrow> response option" where
  "existing_response idempotency_key w =
     (case idempotency_key of
        None \<Rightarrow> None
      | Some key \<Rightarrow>
          if key = [] then None
          else (case get_idempotency_key key w of
                  None \<Rightarrow> None
                | Some existing \<Rightarrow>
                    if truthy (ik_response_body existing)
                    then Some (Response (ik_response_body existing)
                                 (case ik_response_status existing of None \<Rightarrow> 200 | Some s \<Rightarrow> s))
                    else None))"

text \<open>
  \<open>TransactionCreateView.post\<close>. The transaction is committed, the settlement job
  enqueued and the merchant's cached lists deleted before the idempotency record is
  created; \<open>IdempotencyKey.objects.create\<close> raises \<open>IntegrityError\<close> when the key
  already has a row, and the \<open>except Exception\<close> clause then answers 400.
\<close>

definition TransactionCreateView_post ::
  "pylib \<Rightarrow> nat \<Rightarrow> transaction_data request \<Rightarrow> world \<Rightarrow> response \<times> world" where
  "TransactionCreateView_post py now request w =
     (let idempotency_key = rq_idempotency_key request in
      case existing_response idempotency_key w of
        Some r \<Rightarrow> (r, w)
      | None \<Rightarrow>
          (case merchants w (rq_user request) of
             None \<Rightarrow> (standard_response False PNone (PStr (str_exc py Http404)) 400, w)
           | Some merchant \<Rightarrow>
               (case TransactionDetailSerializer_is_valid py (rq_data request) w of
                  Inl e \<Rightarrow> (standard_response False PNone (PStr (str_exc py e)) 400, w)
                | Inr (amount, currency, description, payment_key) \<Rightarrow>
                    if pk_merchant payment_key \<noteq> merchant then
                      (standard_response False PNone
                         (PStr ''Payment key does not belong to this merchant'') 403, w)
                    else
                      let tx = \<lparr>tx_id = next_id (map tx_id (transactions w)),
                                 tx_merchant = merchant,
                                 tx_amount = amount,
                                 tx_currency = currency,
                                 tx_description =
                                   (case description of None \<Rightarrow> [] | Some s \<Rightarrow> s),
                                 tx_status = ''pending'',
                                 tx_created_at = now,
                                 tx_updated_at = now\<rparr>;
                          w1 = w\<lparr>transactions := transactions w @ [tx]\<rparr>;
                          w2 = w1\<lparr>queue := queue w1 @ [process_transaction_job (tx_id tx)]\<rparr>;
                          w3 = cache_delete_pattern merchant w2;
                          dat = TransactionDetailSerializer_data py tx w3
                      in (case idempotency_key of
                            None \<Rightarrow> (standard_response True dat PNone 201, w3)
                          | Some key \<Rightarrow>
                              if key = [] then (standard_response True dat PNone 201, w3)
                              else if get_idempotency_key key w3 \<noteq> None then
                                (standard_response False PNone
                                   (PStr (str_exc py IntegrityError)) 400, w3)
                              else
                                (standard_response True dat PNone 201,
                                 w3\<lparr>idempotency_keys := idempotency_keys w3 @
                                      [\<lparr>ik_key = key, ik_method = ''POST'',
                                        ik_path = rq_path request,
                                        ik_response_status = Some 201,
                                        ik_response_body =
                                          PDict [(''success'', PBool True), (''data'', dat),
                                                 (''error'', PNone)],
                                        ik_created_at = now\<rparr>]\<rparr>)))))"

section \<open>Sample data\<close>

text \<open>
  A state with two merchants (users 1 and 2, merchants 10 and 20), a payment key, one
  succeeded transaction of 100.00 USD and one webhook, all three of merchant 10; and an
  instance of the library functions. They are the concrete inputs at which the theorems
  below are evaluated.
\<close>

definition sample_py :: pylib where
  "sample_py = \<lparr>str_decimal = (\<lambda>n. ''100.00''), isoformat = (\<lambda>t. ''2024-01-01T00:00:00''),
     str_exc = (\<lambda>e. ''error''), str_strip = (\<lambda>s. s), json_dumps = (\<lambda>v. Some ''null''),
     json_loads = (\<lambda>s. Some PNone)\<rparr>"

definition sample_payment_key :: PaymentKey where
  "sample_payment_key = \<lparr>pk_id = 1, pk_merchant = 10, pk_key = ''pk_test'', pk_is_active = True,
     pk_created_at = 0\<rparr>"

definition sample_tx :: Transaction where
  "sample_tx = \<lparr>tx_id = 1, tx_merchant = 10, tx_amount = 10000, tx_currency = ''USD'',
     tx_description = ''Test payment'', tx_status = ''succeeded'', tx_created_at = 1,
     tx_updated_at = 6\<rparr>"

definition sample_webhook :: Webhook where
  "sample_webhook = \<lparr>wb_id = 1, wb_merchant = 10, wb_url = ''https://example.com/webhook'',
     wb_secret = ''s3cr3t'', wb_created_at = 2\<rparr>"

definition sample_world :: world where
  "sample_world = \<lparr>merchants = [1 \<mapsto> 10, 2 \<mapsto> 20], payment_keys = [sample_payment_key],
     transactions = [sample_tx], refunds = [],
     webhooks = [sample_webhook], idempotency_keys = [], cache = Map.empty, queue = []\<rparr>"

definition sample_refund_request :: refund_request where
  "sample_refund_request = \<lparr>rr_user = 1, rr_transaction = Given 1,
     rr_amount = Given \<lparr>d_negative = False, d_digits = [5, 0, 0, 0], d_exponent = - 2\<rparr>,
     rr_reason = Given ''Customer request'', rr_status = Some ''pending''\<rparr>"

definition sample_webhook_request :: webhook_request where
  "sample_webhook_request = \<lparr>wr_user = 2, wr_url = ''https://example.org/hook''\<rparr>"

definition sample_request :: "pyval request" where
  "sample_request = \<lparr>rq_method = ''POST'', rq_path = ''/api/transactions/pay'',
     rq_idempotency_key = None, rq_user = 1, rq_data = PNone\<rparr>"

text \<open>A view that answers 201 with an empty body and changes nothing.\<close>

definition sample_view :: "pyval request \<Rightarrow> world \<Rightarrow> response \<times> world" where
  "sample_view request w = (Response PNone 201, w)"


text \<open>
  A creation request of user 1 for 50.00 EUR under the key \<open>k1\<close>, the body of the
  answer it gets on the sample state at time 7, and library functions whose JSON codec
  knows that one document.
\<close>

definition sample_create_request :: "transaction_data request" where
  "sample_create_request = \<lparr>rq_method = ''POST'', rq_path = ''/api/transactions/pay'',
     rq_idempotency_key = Some ''k1'', rq_user = 1,
     rq_data = \<lparr>td_payment_key = Given ''pk_test'',
                 td_amount = Given \<lparr>d_negative = False, d_digits = [5, 0, 0, 0], d_exponent = - 2\<rparr>,
                 td_currency = Given ''EUR'', td_description = Missing\<rparr>\<rparr>"

definition sample_created :: pyval where
  "sample_created = PDict
     [(''success'', PBool True),
      (''data'', PDict
         [(''id'', PInt 2), (''amount'', PStr ''100.00''), (''currency'', PStr ''EUR''),
          (''description'', PStr []), (''status'', PStr ''pending''),
          (''created_at'', PStr ''2024-01-01T00:00:00''),
          (''updated_at'', PStr ''2024-01-01T00:00:00''), (''refund'', PNone)]),
      (''error'', PNone)]"

definition sample_json_py :: pylib where
  "sample_json_py = sample_py
     \<lparr>json_dumps := (\<lambda>v. if v = sample_created then Some ''created'' else None),
      json_loads := (\<lambda>s. if s = ''created'' then Some sample_created else None)\<rparr>"

section \<open>Lookups and saves\<close>

lemma find_tx_id: "find (\<lambda>t. tx_id t = i) rows = Some tx \<Longrightarrow> tx_id tx = i"
  by (induction rows) (auto split: if_splits)

lemma find_save_same:
  "find (\<lambda>t. tx_id t = i) rows = Some tx \<Longrightarrow> tx_id tx' = i \<Longrightarrow>
   find (\<lambda>t. tx_id t = i) (save_transaction tx' rows) = Some tx'"
  by (induction rows) (auto simp: save_transaction_def split: if_splits)

lemma find_save_other:
  "tx_id tx' \<noteq> j \<Longrightarrow>
   find (\<lambda>t. tx_id t = j) (save_transaction tx' rows) = find (\<lambda>t. tx_id t = j) rows"
  by (induction rows) (auto simp: save_transaction_def)

lemma find_snoc:
  "find P (xs @ [y]) =
     (case find P xs of None \<Rightarrow> (if P y then Some y else None) | Some x \<Rightarrow> Some x)"
  by (induction xs) auto

lemma get_transaction_id: "get_transaction i w = Some tx \<Longrightarrow> tx_id tx = i"
  unfolding get_transaction_def by (rule find_tx_id)

lemma sample_world_tx: "get_transaction 1 sample_world = Some sample_tx"
  by (simp add: get_transaction_def sample_world_def sample_tx_def)


section \<open>Settlement\<close>

lemma process_transaction_found:
  assumes "get_transaction tid w = Some tx"
  shows "process_transaction rnd now tid w =
     w\<lparr>transactions := save_transaction
            (tx\<lparr>tx_status := (if rnd > 0.2 then ''succeeded'' else ''failed''),
                tx_updated_at := now\<rparr>)
            (transactions w),
        queue := queue w @ [send_webhooks_job tid]\<rparr>"
  using assms get_transaction_id[OF assms] by (simp add: process_transaction_def Let_def)

lemma get_after_process:
  assumes "get_transaction tid w = Some tx"
  shows "get_transaction tid (process_transaction rnd now tid w) =
     Some (tx\<lparr>tx_status := (if rnd > 0.2 then ''succeeded'' else ''failed''),
              tx_updated_at := now\<rparr>)"
  using assms get_transaction_id[OF assms]
  by (simp add: process_transaction_found[OF assms] get_transaction_def find_save_same)

lemma get_other_after_process:
  assumes "j \<noteq> tid"
  shows "get_transaction j (process_transaction rnd now tid w) = get_transaction j w"
proof (cases "get_transaction tid w")
  case None
  then show ?thesis by (simp add: process_transaction_def)
next
  case (Some tx)
  from get_transaction_id[OF Some] assms show ?thesis
    by (simp add: process_transaction_found[OF Some] get_transaction_def find_save_other)
qed

text \<open>
  C1, as stated, fails. \<open>process_transaction\<close> never reads the status it overwrites: on
  the sample state, whose transaction 1 is already \<open>succeeded\<close>, a re-delivered job that
  draws 0.1 sets the status to \<open>failed\<close> and enqueues a fan-out.
\<close>

theorem settlement_overwrites_terminal_status:
  "map_option tx_status (get_transaction 1 sample_world) = Some ''succeeded'' \<and>
   map_option tx_status (get_transaction 1 (process_transaction (1/10) 9 1 sample_world))
     = Some ''failed'' \<and>
   queue (process_transaction (1/10) 9 1 sample_world) = [send_webhooks_job 1]"
  by (simp add: process_transaction_def get_transaction_def save_transaction_def
      sample_world_def sample_tx_def Let_def)

text \<open>
  C1, amended: every run of \<open>process_transaction\<close> on a transaction that exists sets its
  status to the outcome drawn in that run (\<open>succeeded\<close> when the draw is above 0.2,
  \<open>failed\<close> otherwise), whatever the status was, and enqueues exactly one fan-out job
  for it; a run for a transaction that does not exist changes nothing and enqueues
  nothing.
\<close>

theorem process_transaction_always_settles:
  "(get_transaction tid w = None \<longrightarrow> process_transaction rnd now tid w = w) \<and>
   (\<forall>tx. get_transaction tid w = Some tx \<longrightarrow>
      map_option tx_status (get_transaction tid (process_transaction rnd now tid w)) =
        Some (if rnd > 0.2 then ''succeeded'' else ''failed'') \<and>
      queue (process_transaction rnd now tid w) = queue w @ [send_webhooks_job tid])"
proof (intro conjI allI impI)
  assume "get_transaction tid w = None"
  then show "process_transaction rnd now tid w = w" by (simp add: process_transaction_def)
next
  fix tx assume h: "get_transaction tid w = Some tx"
  show "map_option tx_status (get_transaction tid (process_transaction rnd now tid w)) =
        Some (if rnd > 0.2 then ''succeeded'' else ''failed'')"
    by (simp add: get_after_process[OF h])
  show "queue (process_transaction rnd now tid w) = queue w @ [send_webhooks_job tid]"
    by (simp add: process_transaction_found[OF h])
qed

theorem process_transaction_always_settles_witness:
  "get_transaction 1 sample_world = Some sample_tx \<and>
   map_option tx_status (get_transaction 1 (process_transaction (9/10) 9 1 sample_world))
     = Some ''succeeded'' \<and>
   queue (process_transaction (9/10) 9 1 sample_world) = [send_webhooks_job 1] \<and>
   get_transaction 2 sample_world = None \<and>
   process_transaction (9/10) 9 2 sample_world = sample_world"
proof -
  have n: "get_transaction 2 sample_world = None"
    by (simp add: get_transaction_def sample_world_def sample_tx_def)
  have q: "queue sample_world = []" by (simp add: sample_world_def)
  from process_transaction_always_settles[of 1 sample_world "9/10" 9] sample_world_tx q
    process_transaction_always_settles[of 2 sample_world "9/10" 9] n
  show ?thesis by simp
qed

text \<open>
  C8: settlement leaves the id, merchant, amount, currency, description and creation
  time of the transaction as they were; every other transaction and every other table,
  and the cache, are unchanged.
\<close>

theorem settlement_frame:
  assumes "get_transaction tid w = Some tx"
  shows "(\<exists>tx'. get_transaction tid (process_transaction rnd now tid w) = Some tx' \<and>
            tx_id tx' = tx_id tx \<and> tx_merchant tx' = tx_merchant tx \<and>
            tx_amount tx' = tx_amount tx \<and> tx_currency tx' = tx_currency tx \<and>
            tx_description tx' = tx_description tx \<and> tx_created_at tx' = tx_created_at tx) \<and>
         (\<forall>j. j \<noteq> tid \<longrightarrow>
            get_transaction j (process_transaction rnd now tid w) = get_transaction j w) \<and>
         merchants (process_transaction rnd now tid w) = merchants w \<and>
         payment_keys (process_transaction rnd now tid w) = payment_keys w \<and>
         refunds (process_transaction rnd now tid w) = refunds w \<and>
         webhooks (process_transaction rnd now tid w) = webhooks w \<and>
         idempotency_keys (process_transaction rnd now tid w) = idempotency_keys w \<and>
         cache (process_transaction rnd now tid w) = cache w"
  by (simp add: get_after_process[OF assms] get_other_after_process)
    (simp add: process_transaction_found[OF assms])

theorem settlement_frame_witness:
  "get_transaction 1 sample_world = Some sample_tx \<and>
   map_option tx_amount (get_transaction 1 (process_transaction (1/10) 9 1 sample_world))
     = Some 10000 \<and>
   map_option tx_created_at (get_transaction 1 (process_transaction (1/10) 9 1 sample_world))
     = Some 1 \<and>
   webhooks (process_transaction (1/10) 9 1 sample_world) = [sample_webhook]"
proof -
  from settlement_frame[OF sample_world_tx, of "1/10" 9]
  obtain tx' where "get_transaction 1 (process_transaction (1/10) 9 1 sample_world) = Some tx'"
    and "tx_amount tx' = tx_amount sample_tx" and "tx_created_at tx' = tx_created_at sample_tx"
    and "webhooks (process_transaction (1/10) 9 1 sample_world) = webhooks sample_world"
    by blast
  then show ?thesis
    using sample_world_tx by (simp add: sample_tx_def sample_world_def)
qed

section \<open>Webhook fan-out\<close>

text \<open>
  C7: the fan-out enqueues one delivery per webhook of the transaction's merchant, each
  with the same payload; the payload has exactly the seven fields, the amount as the
  decimal's string and the two times in ISO format, all read from the row as it is
  when the fan-out runs. When the fan-out follows a settlement, that row carries the
  settled status and the time of the settlement.
\<close>

theorem webhook_payload_snapshot:
  assumes "get_transaction tid w = Some tx"
  shows "queue (send_webhooks py tid w) =
           queue w @ map (\<lambda>wb. deliver_webhook_job (wb_id wb) (payload py tx))
                         (filter (\<lambda>wb. wb_merchant wb = tx_merchant tx) (webhooks w)) \<and>
         dict_keys (payload py tx) =
           [''id'', ''status'', ''amount'', ''currency'', ''description'', ''created_at'',
            ''updated_at''] \<and>
         dict_get (payload py tx) ''id'' = Some (PInt (int (tx_id tx))) \<and>
         dict_get (payload py tx) ''status'' = Some (PStr (tx_status tx)) \<and>
         dict_get (payload py tx) ''amount'' = Some (PStr (str_decimal py (tx_amount tx))) \<and>
         dict_get (payload py tx) ''currency'' = Some (PStr (tx_currency tx)) \<and>
         dict_get (payload py tx) ''description'' = Some (PStr (tx_description tx)) \<and>
         dict_get (payload py tx) ''created_at'' = Some (PStr (isoformat py (tx_created_at tx))) \<and>
         dict_get (payload py tx) ''updated_at'' = Some (PStr (isoformat py (tx_updated_at tx))) \<and>
         queue (send_webhooks py tid (process_transaction rnd now tid w)) =
           queue w @ [send_webhooks_job tid] @
           map (\<lambda>wb. deliver_webhook_job (wb_id wb)
                  (payload py (tx\<lparr>tx_status := (if rnd > 0.2 then ''succeeded'' else ''failed''),
                                  tx_updated_at := now\<rparr>)))
               (filter (\<lambda>wb. wb_merchant wb = tx_merchant tx) (webhooks w))"
proof (intro conjI)
  show "queue (send_webhooks py tid w) =
           queue w @ map (\<lambda>wb. deliver_webhook_job (wb_id wb) (payload py tx))
                         (filter (\<lambda>wb. wb_merchant wb = tx_merchant tx) (webhooks w))"
    using assms by (simp add: send_webhooks_def Let_def)
  have "queue (send_webhooks py tid (process_transaction rnd now tid w)) =
        queue (process_transaction rnd now tid w) @
        map (\<lambda>wb. deliver_webhook_job (wb_id wb)
                  (payload py (tx\<lparr>tx_status := (if rnd > 0.2 then ''succeeded'' else ''failed''),
                                  tx_updated_at := now\<rparr>)))
            (filter (\<lambda>wb. wb_merchant wb = tx_merchant tx)
               (webhooks (process_transaction rnd now tid w)))"
    using get_after_process[OF assms, of rnd now] by (simp add: send_webhooks_def Let_def)
  then show "queue (send_webhooks py tid (process_transaction rnd now tid w)) =
           queue w @ [send_webhooks_job tid] @
           map (\<lambda>wb. deliver_webhook_job (wb_id wb)
                  (payload py (tx\<lparr>tx_status := (if rnd > 0.2 then ''succeeded'' else ''failed''),
                                  tx_updated_at := now\<rparr>)))
               (filter (\<lambda>wb. wb_merchant wb = tx_merchant tx) (webhooks w))"
    by (simp add: process_transaction_found[OF assms])
qed (simp_all add: payload_def)

theorem webhook_payload_snapshot_witness:
  "get_transaction 1 sample_world = Some sample_tx \<and>
   queue (send_webhooks sample_py 1 sample_world) =
     [deliver_webhook_job 1 (payload sample_py sample_tx)] \<and>
   dict_get (payload sample_py sample_tx) ''amount'' = Some (PStr ''100.00'')"
  using webhook_payload_snapshot[OF sample_world_tx, of sample_py "1/10" 9] sample_world_tx
  by (simp add: sample_world_def sample_webhook_def sample_tx_def sample_py_def)

section \<open>Refund creation\<close>











text \<open>
  C9: whatever the request, the view adds no refund or exactly one, and the one it adds
  has the status \<open>succeeded\<close>, which is also the status in the 201 response; the
  \<open>status\<close> the client sent has no effect on the answer or on the state. A refund
  created without a status would have the model's default, \<open>pending\<close>.
\<close>

theorem refund_status_is_succeeded:
  "(refunds (snd (RefundCreateView_post py now rq w)) = refunds w \<or>
    (\<exists>r. refunds (snd (RefundCreateView_post py now rq w)) = refunds w @ [r] \<and>
         rf_status r = ''succeeded'')) \<and>
   (status_code (fst (RefundCreateView_post py now rq w)) = 201 \<longrightarrow>
    (\<exists>r. refunds (snd (RefundCreateView_post py now rq w)) = refunds w @ [r] \<and>
         rf_status r = ''succeeded'' \<and>
         dict_get (RefundSerializer_data py r) ''status'' = Some (PStr ''succeeded'') \<and>
         fst (RefundCreateView_post py now rq w) =
           standard_response True (RefundSerializer_data py r) PNone 201)) \<and>
   RefundCreateView_post py now (rq\<lparr>rr_status := s\<rparr>) w = RefundCreateView_post py now rq w \<and>
   rf_status (fst (Refund_objects_create now t a reason None w)) = ''pending''"
proof -
  have same: "RefundSerializer_is_valid py (rq\<lparr>rr_status := s\<rparr>) w = RefundSerializer_is_valid py rq w"
    by (simp add: RefundSerializer_is_valid_def)
  have 3: "RefundCreateView_post py now (rq\<lparr>rr_status := s\<rparr>) w = RefundCreateView_post py now rq w"
    by (simp add: RefundCreateView_post_def same split: option.splits)
  have 4: "rf_status (fst (Refund_objects_create now t a reason None w)) = ''pending''"
    by (simp add: Refund_objects_create_def Let_def)
  have 12: "(refunds (snd (RefundCreateView_post py now rq w)) = refunds w \<or>
    (\<exists>r. refunds (snd (RefundCreateView_post py now rq w)) = refunds w @ [r] \<and>
         rf_status r = ''succeeded'')) \<and>
   (status_code (fst (RefundCreateView_post py now rq w)) = 201 \<longrightarrow>
    (\<exists>r. refunds (snd (RefundCreateView_post py now rq w)) = refunds w @ [r] \<and>
         rf_status r = ''succeeded'' \<and>
         dict_get (RefundSerializer_data py r) ''status'' = Some (PStr ''succeeded'') \<and>
         fst (RefundCreateView_post py now rq w) =
           standard_response True (RefundSerializer_data py r) PNone 201))"
    by (cases "RefundSerializer_is_valid py rq w")
      (auto simp: RefundCreateView_post_def Refund_objects_create_def
        standard_response_def cache_delete_pattern_def cache_delete_def Let_def
        RefundSerializer_data_def
        split: option.splits if_splits)
  from 12 3 4 show ?thesis by blast
qed

theorem refund_status_is_succeeded_witness:
  "rr_status sample_refund_request = Some ''pending'' \<and>
   status_code (fst (RefundCreateView_post sample_py 7 sample_refund_request sample_world)) = 201 \<and>
   map rf_status (refunds (snd (RefundCreateView_post sample_py 7 sample_refund_request sample_world)))
     = [''succeeded'']"
proof -
  have ok: "status_code (fst (RefundCreateView_post sample_py 7 sample_refund_request sample_world)) = 201"
    by (simp add: RefundCreateView_post_def RefundSerializer_is_valid_def
        RefundSerializer_transaction_def RefundSerializer_amount_def RefundSerializer_reason_def
        RefundSerializer_validate_amount_def validate_precision_def total_digits_def
        decimal_places_def whole_digits_def quantize_def of_digits_def
        Refund_objects_create_def
        standard_response_def Let_def get_transaction_def get_refund_def
        sample_world_def sample_tx_def sample_refund_request_def sample_py_def)
  with refund_status_is_succeeded[of sample_py 7 sample_refund_request sample_world]
  obtain r where "refunds (snd (RefundCreateView_post sample_py 7 sample_refund_request sample_world))
        = refunds sample_world @ [r]" and "rf_status r = ''succeeded''"
    by blast
  with ok show ?thesis by (simp add: sample_world_def sample_refund_request_def)
qed

section \<open>Webhook endpoints\<close>

text \<open>
  C10: the answer to a webhook creation is the same whatever secret was generated,
  although that secret is stored in the new row; a serialized webhook has exactly the
  keys \<open>id\<close>, \<open>url\<close> and \<open>created_at\<close>; and the answer to a listing is the list of
  the merchant's webhooks so serialized, the same whatever the secrets in the table.
\<close>

theorem webhook_secret_never_returned:
  "fst (WebhookListCreateView_post py uv now secret rq w) =
     fst (WebhookListCreateView_post py uv now secret' rq w) \<and>
   (status_code (fst (WebhookListCreateView_post py uv now secret rq w)) = 201 \<longrightarrow>
      (\<exists>wb. webhooks (snd (WebhookListCreateView_post py uv now secret rq w)) = webhooks w @ [wb] \<and>
            wb_secret wb = secret \<and>
            fst (WebhookListCreateView_post py uv now secret rq w) =
              standard_response True (WebhookSerializer_data py wb) PNone 201)) \<and>
   dict_keys (WebhookSerializer_data py wb0) = [''id'', ''url'', ''created_at''] \<and>
   WebhookListCreateView_get py user
       (w\<lparr>webhooks := map (\<lambda>wb. wb\<lparr>wb_secret := f wb\<rparr>) (webhooks w)\<rparr>) =
     WebhookListCreateView_get py user w \<and>
   (\<forall>m. merchants w user = Some m \<longrightarrow>
      WebhookListCreateView_get py user w =
        standard_response True
          (PList (map (WebhookSerializer_data py)
                    (filter (\<lambda>wb. wb_merchant wb = m) (webhooks w)))) PNone 200)"
proof (intro conjI)
  show "fst (WebhookListCreateView_post py uv now secret rq w) =
     fst (WebhookListCreateView_post py uv now secret' rq w)"
    by (simp add: WebhookListCreateView_post_def WebhookSerializer_data_def Let_def
        split: option.splits sum.splits)
  show "status_code (fst (WebhookListCreateView_post py uv now secret rq w)) = 201 \<longrightarrow>
      (\<exists>wb. webhooks (snd (WebhookListCreateView_post py uv now secret rq w)) = webhooks w @ [wb] \<and>
            wb_secret wb = secret \<and>
            fst (WebhookListCreateView_post py uv now secret rq w) =
              standard_response True (WebhookSerializer_data py wb) PNone 201)"
    by (auto simp: WebhookListCreateView_post_def Let_def standard_response_def
        split: option.splits sum.splits)
  show "dict_keys (WebhookSerializer_data py wb0) = [''id'', ''url'', ''created_at'']"
    by (simp add: WebhookSerializer_data_def)
  have m: "map (WebhookSerializer_data py)
             (filter (\<lambda>wb. wb_merchant wb = m) (map (\<lambda>wb. wb\<lparr>wb_secret := f wb\<rparr>) rows))
         = map (WebhookSerializer_data py) (filter (\<lambda>wb. wb_merchant wb = m) rows)" for m rows
    by (induction rows) (simp_all add: WebhookSerializer_data_def)
  show "WebhookListCreateView_get py user
       (w\<lparr>webhooks := map (\<lambda>wb. wb\<lparr>wb_secret := f wb\<rparr>) (webhooks w)\<rparr>) =
     WebhookListCreateView_get py user w"
    by (simp add: WebhookListCreateView_get_def m split: option.splits)
  show "\<forall>m. merchants w user = Some m \<longrightarrow>
      WebhookListCreateView_get py user w =
        standard_response True
          (PList (map (WebhookSerializer_data py)
                    (filter (\<lambda>wb. wb_merchant wb = m) (webhooks w)))) PNone 200"
    by (simp add: WebhookListCreateView_get_def)
qed

theorem webhook_secret_never_returned_witness:
  "status_code (fst (WebhookListCreateView_post sample_py (\<lambda>u. True) 8 ''tok3n''
      sample_webhook_request sample_world)) = 201 \<and>
   map wb_secret (webhooks (snd (WebhookListCreateView_post sample_py (\<lambda>u. True) 8 ''tok3n''
      sample_webhook_request sample_world))) = [''s3cr3t'', ''tok3n''] \<and>
   merchants sample_world 1 = Some 10 \<and>
   WebhookListCreateView_get sample_py 1 sample_world =
     standard_response True
       (PList [PDict [(''id'', PInt 1), (''url'', PStr ''https://example.com/webhook''),
                      (''created_at'', PStr ''2024-01-01T00:00:00'')]]) PNone 200"
proof -
  have ok: "status_code (fst (WebhookListCreateView_post sample_py (\<lambda>u. True) 8 ''tok3n''
      sample_webhook_request sample_world)) = 201"
    by (simp add: WebhookListCreateView_post_def WebhookSerializer_is_valid_def validate_url_def
        startswith_def standard_response_def Let_def sample_world_def sample_webhook_request_def)
  have m: "merchants sample_world 1 = Some 10" by (simp add: sample_world_def)
  note inst = webhook_secret_never_returned[of sample_py "\<lambda>u. True" 8 "''tok3n''"
      sample_webhook_request sample_world "''other''" sample_webhook 1 "\<lambda>wb. []"]
  from inst ok obtain wb where
    "webhooks (snd (WebhookListCreateView_post sample_py (\<lambda>u. True) 8 ''tok3n''
        sample_webhook_request sample_world)) = webhooks sample_world @ [wb]"
    and "wb_secret wb = ''tok3n''"
    by blast
  moreover from inst m have "WebhookListCreateView_get sample_py 1 sample_world =
        standard_response True
          (PList (map (WebhookSerializer_data sample_py)
                    (filter (\<lambda>wb. wb_merchant wb = 10) (webhooks sample_world)))) PNone 200"
    by blast
  ultimately show ?thesis
    using ok m
    by (simp add: sample_world_def sample_webhook_def WebhookSerializer_data_def sample_py_def)
qed

section \<open>The idempotency middleware\<close>

text \<open>
  C6: a request without the \<open>Idempotency-Key\<close> header, or whose method is neither POST
  nor PUT, gets the view's answer and the state the view left, whatever the idempotency
  table holds: the middleware neither reads nor writes it.
\<close>

theorem gate_not_applied:
  assumes "rq_idempotency_key request = None \<or>
           (rq_method request \<noteq> ''POST'' \<and> rq_method request \<noteq> ''PUT'')"
  shows "IdempotencyMiddleware_call py now get_response request w = get_response request w"
  using assms by (auto simp: IdempotencyMiddleware_call_def split: option.splits)

theorem gate_not_applied_witness:
  "rq_idempotency_key sample_request = None \<and>
   IdempotencyMiddleware_call sample_py 3 sample_view sample_request sample_world =
     (Response PNone 201, sample_world) \<and>
   rq_method (sample_request\<lparr>rq_method := ''GET'', rq_idempotency_key := Some ''k1''\<rparr>) \<noteq> ''POST'' \<and>
   IdempotencyMiddleware_call sample_py 3 sample_view
     (sample_request\<lparr>rq_method := ''GET'', rq_idempotency_key := Some ''k1''\<rparr>) sample_world =
     (Response PNone 201, sample_world)"
proof -
  have a: "rq_idempotency_key sample_request = None" by (simp add: sample_request_def)
  have b: "rq_method (sample_request\<lparr>rq_method := ''GET'', rq_idempotency_key := Some ''k1''\<rparr>) \<noteq> ''POST''
         \<and> rq_method (sample_request\<lparr>rq_method := ''GET'', rq_idempotency_key := Some ''k1''\<rparr>) \<noteq> ''PUT''"
    by simp
  from gate_not_applied[of sample_request sample_py 3 sample_view sample_world] a
    gate_not_applied[of "sample_request\<lparr>rq_method := ''GET'', rq_idempotency_key := Some ''k1''\<rparr>"
      sample_py 3 sample_view sample_world] b
  show ?thesis by (simp add: sample_view_def)
qed

lemma get_after_update_or_create:
  "\<exists>r. get_idempotency_key key (update_or_create now key method path code body w) = Some r \<and>
       ik_response_status r = Some code \<and> ik_response_body r = body"
proof (cases "get_idempotency_key key w")
  case None
  then have "find (\<lambda>r. ik_key r = key) (idempotency_keys w) = None"
    by (simp add: get_idempotency_key_def)
  then show ?thesis
    by (simp add: update_or_create_def get_idempotency_key_def find_snoc)
next
  case (Some e)
  have "find (\<lambda>r. ik_key r = key) rows = Some e \<Longrightarrow>
        \<exists>r. find (\<lambda>r. ik_key r = key)
               (map (\<lambda>r. if ik_key r = key
                         then r\<lparr>ik_method := method, ik_path := path,
                                ik_response_status := Some code, ik_response_body := body\<rparr>
                         else r) rows) = Some r \<and>
            ik_response_status r = Some code \<and> ik_response_body r = body" for rows
    by (induction rows) (auto split: if_splits)
  with Some show ?thesis
    by (simp add: update_or_create_def get_idempotency_key_def)
qed

lemma replay_populated:
  assumes "rq_idempotency_key request = Some key" "key \<noteq> []"
    "rq_method request = ''POST'' \<or> rq_method request = ''PUT''"
    "get_idempotency_key key w = Some existing" "ik_response_body existing \<noteq> PNone"
  shows "IdempotencyMiddleware_call py now get_response request w =
         (Response (decode_body py (ik_response_body existing))
            (case ik_response_status existing of None \<Rightarrow> 200 | Some s \<Rightarrow> s), w)"
  using assms by (auto simp: IdempotencyMiddleware_call_def cached_response_def)

text \<open>
  What the middleware does with a key that has no populated record: it runs the view and
  stores the view's status and body under the key.
\<close>

lemma first_request_stores:
  assumes "rq_idempotency_key request = Some key" "key \<noteq> []"
    "rq_method request = ''POST'' \<or> rq_method request = ''PUT''"
    "get_idempotency_key key w = None \<or>
     (\<exists>e. get_idempotency_key key w = Some e \<and> ik_response_body e = PNone)"
    "get_response request w = (response, w1)"
  shows "IdempotencyMiddleware_call py now get_response request w =
         (response, update_or_create now key (rq_method request) (rq_path request)
                      (status_code response) (PStr (extract_body py response)) w1)"
  using assms by (auto simp: IdempotencyMiddleware_call_def)




section \<open>Webhook delivery\<close>

lemma run_task_unfold:
  "run_task kw body retries =
     (case body retries of
        None \<Rightarrow> [Attempt retries, Succeeded]
      | Some exc \<Rightarrow>
          if retries + 1 > max_retries kw then [Attempt retries, on_failure exc]
          else Attempt retries # Countdown (countdown kw) # run_task kw body (retries + 1))"
  by (rule run_task.simps)

declare run_task.simps [simp del]

lemma run_webhook_task_0:
  "run_task WebhookTask_retry_kwargs body 0 =
     (case body 0 of
        None \<Rightarrow> [Attempt 0, Succeeded]
      | Some e \<Rightarrow> Attempt 0 # Countdown 3 # run_task WebhookTask_retry_kwargs body (Suc 0))"
  by (subst run_task_unfold) (simp add: WebhookTask_retry_kwargs_def split: option.splits)

lemma run_webhook_task_1:
  "run_task WebhookTask_retry_kwargs body (Suc 0) =
     (case body (Suc 0) of
        None \<Rightarrow> [Attempt (Suc 0), Succeeded]
      | Some e \<Rightarrow>
          Attempt (Suc 0) # Countdown 3 # run_task WebhookTask_retry_kwargs body (Suc (Suc 0)))"
  by (subst run_task_unfold) (simp add: WebhookTask_retry_kwargs_def split: option.splits)

lemma run_webhook_task_2:
  "run_task WebhookTask_retry_kwargs body (Suc (Suc 0)) =
     (case body (Suc (Suc 0)) of
        None \<Rightarrow> [Attempt (Suc (Suc 0)), Succeeded]
      | Some e \<Rightarrow> [Attempt (Suc (Suc 0)), on_failure e])"
  by (subst run_task_unfold) (simp add: WebhookTask_retry_kwargs_def split: option.splits)

lemma deliver_webhook_raises_iff:
  "deliver_webhook post k webhook_id pl w \<noteq> None \<longleftrightarrow>
     (case find (\<lambda>wb. wb_id wb = webhook_id) (webhooks w) of
        None \<Rightarrow> True
      | Some wb \<Rightarrow>
          (case post k (wb_url wb) pl of
             StatusCode c \<Rightarrow> 400 \<le> c \<and> c < 600
           | RaisedConnectionError \<Rightarrow> True
           | RaisedTimeout \<Rightarrow> True))"
  by (simp add: deliver_webhook_def raise_for_status_def split: option.splits http_result.splits)

text \<open>
  C4, as stated, fails on one point: a response that is not 2xx is a failed attempt
  only when its status is 400 to 599. A 304 answer to the first call is taken as a
  delivery: one attempt, no retry.
\<close>

theorem not_modified_is_not_retried:
  "deliver_webhook_task (\<lambda>retries url pl. StatusCode 304) 1 PNone sample_world
     = [Attempt 0, Succeeded]"
  by (simp add: deliver_webhook_task_def run_webhook_task_0 deliver_webhook_def
      raise_for_status_def sample_world_def sample_webhook_def)

text \<open>
  C4, amended: an attempt fails when the webhook row is missing, the call raises a
  connection error or a timeout, or the response has a status from 400 to 599. A failed
  attempt is followed by a countdown of 3 and another attempt, up to 2 retries: there are
  never more than 3 attempts. An attempt that does not fail ends the task with no further
  attempt; when the third attempt fails, \<open>on_failure\<close> runs with its exception.
\<close>

theorem webhook_retry_policy:
  "(let body = (\<lambda>retries. deliver_webhook post retries webhook_id pl w);
        T = deliver_webhook_task post webhook_id pl w
    in length (filter is_attempt T) \<le> 3 \<and>
       (body 0 = None \<longrightarrow> T = [Attempt 0, Succeeded]) \<and>
       (\<forall>e0. body 0 = Some e0 \<and> body 1 = None \<longrightarrow>
          T = [Attempt 0, Countdown 3, Attempt 1, Succeeded]) \<and>
       (\<forall>e0 e1. body 0 = Some e0 \<and> body 1 = Some e1 \<and> body 2 = None \<longrightarrow>
          T = [Attempt 0, Countdown 3, Attempt 1, Countdown 3, Attempt 2, Succeeded]) \<and>
       (\<forall>e0 e1 e2. body 0 = Some e0 \<and> body 1 = Some e1 \<and> body 2 = Some e2 \<longrightarrow>
          T = [Attempt 0, Countdown 3, Attempt 1, Countdown 3, Attempt 2, on_failure e2]) \<and>
       (\<forall>k. body k \<noteq> None \<longleftrightarrow>
          (case find (\<lambda>wb. wb_id wb = webhook_id) (webhooks w) of
             None \<Rightarrow> True
           | Some wb \<Rightarrow>
               (case post k (wb_url wb) pl of
                  StatusCode c \<Rightarrow> 400 \<le> c \<and> c < 600
                | RaisedConnectionError \<Rightarrow> True
                | RaisedTimeout \<Rightarrow> True))))"
  unfolding Let_def deliver_webhook_task_def
  by (simp add: run_webhook_task_0 run_webhook_task_1 run_webhook_task_2 numeral_2_eq_2
      deliver_webhook_raises_iff[symmetric] del: not_None_eq split: option.splits)

theorem webhook_retry_policy_witness:
  "deliver_webhook (\<lambda>retries url pl. if retries < 2 then StatusCode 500 else StatusCode 200)
       0 1 PNone sample_world = Some (HTTPError 500) \<and>
   deliver_webhook (\<lambda>retries url pl. if retries < 2 then StatusCode 500 else StatusCode 200)
       1 1 PNone sample_world = Some (HTTPError 500) \<and>
   deliver_webhook (\<lambda>retries url pl. if retries < 2 then StatusCode 500 else StatusCode 200)
       2 1 PNone sample_world = None \<and>
   deliver_webhook_task (\<lambda>retries url pl. if retries < 2 then StatusCode 500 else StatusCode 200)
       1 PNone sample_world =
     [Attempt 0, Countdown 3, Attempt 1, Countdown 3, Attempt 2, Succeeded] \<and>
   deliver_webhook_task (\<lambda>retries url pl. RaisedTimeout) 1 PNone sample_world =
     [Attempt 0, Countdown 3, Attempt 1, Countdown 3, Attempt 2, on_failure Timeout]"
proof -
  let ?p = "\<lambda>retries (url::string) (pl::pyval). if retries < (2::nat) then StatusCode 500 else StatusCode 200"
  let ?q = "\<lambda>(retries::nat) (url::string) (pl::pyval). RaisedTimeout"
  have a: "deliver_webhook ?p 0 1 PNone sample_world = Some (HTTPError 500)"
          "deliver_webhook ?p 1 1 PNone sample_world = Some (HTTPError 500)"
          "deliver_webhook ?p 2 1 PNone sample_world = None"
    by (simp_all add: deliver_webhook_def raise_for_status_def sample_world_def sample_webhook_def)
  have b: "deliver_webhook ?q k 1 PNone sample_world = Some Timeout" for k
    by (simp add: deliver_webhook_def sample_world_def sample_webhook_def)
  from webhook_retry_policy[of ?p 1 PNone sample_world] a
  have 1: "deliver_webhook_task ?p 1 PNone sample_world =
     [Attempt 0, Countdown 3, Attempt 1, Countdown 3, Attempt 2, Succeeded]"
    unfolding Let_def by blast
  from webhook_retry_policy[of ?q 1 PNone sample_world] b
  have 2: "deliver_webhook_task ?q 1 PNone sample_world =
     [Attempt 0, Countdown 3, Attempt 1, Countdown 3, Attempt 2, on_failure Timeout]"
    unfolding Let_def by blast
  from a 1 2 show ?thesis by simp
qed

section \<open>Transaction detail and the cache\<close>

text \<open>
  Without a cache entry the detail view answers from the rows of the requesting user's
  merchant only.
\<close>

lemma find_filter_merchant:
  "find (\<lambda>t. tx_id t = pk) (filter (\<lambda>t. tx_merchant t = m) rows) = Some tx \<Longrightarrow>
   tx_merchant tx = m \<and> tx_id tx = pk"
  by (induction rows) (auto split: if_splits)

lemma detail_without_cache_is_scoped:
  assumes "cache_get now (transaction_key pk) w = None"
    and "merchants w user = Some m"
  shows "fst (TransactionDetailView_retrieve py now user pk w) =
           standard_response False PNone (PStr ''Transaction not found'') 404 \<or>
         (\<exists>tx. tx \<in> set (transactions w) \<and> tx_merchant tx = m \<and> tx_id tx = pk \<and>
               fst (TransactionDetailView_retrieve py now user pk w) =
                 standard_response True (TransactionDetailSerializer_data py tx w) PNone 200)"
proof (cases "TransactionDetailView_get_object user pk w")
  case None
  with assms show ?thesis by (simp add: TransactionDetailView_retrieve_def Let_def)
next
  case (Some tx)
  with assms have f: "find (\<lambda>t. tx_id t = pk) (filter (\<lambda>t. tx_merchant t = m) (transactions w)) = Some tx"
    by (simp add: TransactionDetailView_get_object_def)
  then have "tx \<in> set (transactions w)"
    by (auto simp: find_Some_iff in_set_conv_nth dest!: nth_mem)
  with find_filter_merchant[OF f] Some assms show ?thesis
    by (auto simp: TransactionDetailView_retrieve_def Let_def)
qed

text \<open>
  C5 fails on the cached detail path. Transaction 1 belongs to merchant 10 (user 1).
  User 1 reads it at time 100, which caches it under \<open>transaction:1\<close> for 30 time
  units. At time 105 user 2 (merchant 20) asks for transaction 1 and gets merchant 10's
  transaction with status 200; on the state without the cache entry the same request
  gets the 404.
\<close>

theorem detail_cache_serves_other_merchant:
  "merchants sample_world 1 = Some 10 \<and> merchants sample_world 2 = Some 20 \<and>
   tx_merchant sample_tx = 10 \<and>
   fst (TransactionDetailView_retrieve py 105 2 1 sample_world) =
     standard_response False PNone (PStr ''Transaction not found'') 404 \<and>
   fst (TransactionDetailView_retrieve py 105 2 1
          (snd (TransactionDetailView_retrieve py 100 1 1 sample_world))) =
     standard_response True (TransactionDetailSerializer_data py sample_tx sample_world) PNone 200"
  by (simp add: TransactionDetailView_retrieve_def TransactionDetailView_get_object_def
      cache_get_def cache_set_def Let_def sample_world_def sample_tx_def
      TransactionDetailSerializer_data_def get_refund_def)

section \<open>Creation behind the middleware\<close>

lemma detail_data_refunds:
  "refunds w' = refunds w \<Longrightarrow>
   TransactionDetailSerializer_data py tx w' = TransactionDetailSerializer_data py tx w"
  by (simp add: TransactionDetailSerializer_data_def get_refund_def)

text \<open>
  The creation view on a request the serializer accepts, whose payment key is the
  merchant's and whose idempotency key has no record: a new \<open>pending\<close> transaction, one
  settlement job for it, and the 201 answer.
\<close>

lemma create_view_fresh:
  assumes "merchants w (rq_user r) = Some m"
    and "TransactionDetailSerializer_is_valid py (rq_data r) w =
           Inr (amount, currency, description, k)"
    and "pk_merchant k = m"
    and "rq_idempotency_key r = Some key" and "key \<noteq> []"
    and "get_idempotency_key key w = None"
  shows "fst (TransactionCreateView_post py now r w) =
           standard_response True
             (TransactionDetailSerializer_data py
                \<lparr>tx_id = next_id (map tx_id (transactions w)), tx_merchant = m,
                 tx_amount = amount, tx_currency = currency,
                 tx_description = (case description of None \<Rightarrow> [] | Some s \<Rightarrow> s),
                 tx_status = ''pending'', tx_created_at = now, tx_updated_at = now\<rparr> w)
             PNone 201"
    and "transactions (snd (TransactionCreateView_post py now r w)) =
           transactions w @
             [\<lparr>tx_id = next_id (map tx_id (transactions w)), tx_merchant = m,
               tx_amount = amount, tx_currency = currency,
               tx_description = (case description of None \<Rightarrow> [] | Some s \<Rightarrow> s),
               tx_status = ''pending'', tx_created_at = now, tx_updated_at = now\<rparr>]"
    and "queue (snd (TransactionCreateView_post py now r w)) =
           queue w @ [process_transaction_job (next_id (map tx_id (transactions w)))]"
proof -
  have e: "existing_response (Some key) w = None"
    using assms by (simp add: existing_response_def)
  have g: "get_idempotency_key key (cache_delete_pattern m w') = get_idempotency_key key w'" for w'
    by (simp add: get_idempotency_key_def cache_delete_pattern_def)
  have g2: "get_idempotency_key key (w\<lparr>transactions := ts, queue := q\<rparr>) = None" for ts q
    using assms by (simp add: get_idempotency_key_def)
  have d: "TransactionDetailSerializer_data py tx
             (cache_delete_pattern m (w\<lparr>transactions := ts, queue := q\<rparr>))
         = TransactionDetailSerializer_data py tx w" for tx ts q
    by (rule detail_data_refunds) (simp add: cache_delete_pattern_def)
  show "fst (TransactionCreateView_post py now r w) =
           standard_response True
             (TransactionDetailSerializer_data py
                \<lparr>tx_id = next_id (map tx_id (transactions w)), tx_merchant = m,
                 tx_amount = amount, tx_currency = currency,
                 tx_description = (case description of None \<Rightarrow> [] | Some s \<Rightarrow> s),
                 tx_status = ''pending'', tx_created_at = now, tx_updated_at = now\<rparr> w)
             PNone 201"
    using assms e by (simp add: TransactionCreateView_post_def Let_def g g2 d)
  show "transactions (snd (TransactionCreateView_post py now r w)) =
           transactions w @
             [\<lparr>tx_id = next_id (map tx_id (transactions w)), tx_merchant = m,
               tx_amount = amount, tx_currency = currency,
               tx_description = (case description of None \<Rightarrow> [] | Some s \<Rightarrow> s),
               tx_status = ''pending'', tx_created_at = now, tx_updated_at = now\<rparr>]"
    using assms e
    by (simp add: TransactionCreateView_post_def Let_def g g2 d) (simp add: cache_delete_pattern_def)
  show "queue (snd (TransactionCreateView_post py now r w)) =
           queue w @ [process_transaction_job (next_id (map tx_id (transactions w)))]"
    using assms e
    by (simp add: TransactionCreateView_post_def Let_def g g2 d) (simp add: cache_delete_pattern_def)
qed

lemma update_or_create_frame:
  "transactions (update_or_create now key method path code body w) = transactions w"
  "queue (update_or_create now key method path code body w) = queue w"
  by (simp_all add: update_or_create_def split: option.splits)

text \<open>
  Two creation requests with one key, both through the middleware. The first is
  accepted and its key is new: it creates one transaction and enqueues one settlement
  job. The second, whatever its payload, user and time, gets the first one's answer and
  changes nothing, so there is still one transaction and one job. The data of the first
  answer is assumed to survive \<open>json.dumps\<close> and \<open>json.loads\<close>.
\<close>

theorem duplicate_creation_is_replayed:
  assumes "merchants w (rq_user r1) = Some m"
    and "TransactionDetailSerializer_is_valid py (rq_data r1) w =
           Inr (amount, currency, description, k)"
    and "pk_merchant k = m"
    and "rq_idempotency_key r1 = Some key" and "key \<noteq> []" and "rq_method r1 = ''POST''"
    and "get_idempotency_key key w = None"
    and "rq_idempotency_key r2 = Some key" and "rq_method r2 = ''POST''"
    and "fst (TransactionCreateView_post py now1 r1 w) = Response d s"
    and "json_dumps py d = Some b" and "json_loads py b = Some d"
  shows
    "fst (IdempotencyMiddleware_call py now1 (TransactionCreateView_post py now1) r1 w) =
       fst (TransactionCreateView_post py now1 r1 w) \<and>
     status_code (fst (TransactionCreateView_post py now1 r1 w)) = 201 \<and>
     length (transactions
        (snd (IdempotencyMiddleware_call py now1 (TransactionCreateView_post py now1) r1 w))) =
       Suc (length (transactions w)) \<and>
     queue (snd (IdempotencyMiddleware_call py now1 (TransactionCreateView_post py now1) r1 w)) =
       queue w @ [process_transaction_job (next_id (map tx_id (transactions w)))] \<and>
     IdempotencyMiddleware_call py now2 (TransactionCreateView_post py now2) r2
         (snd (IdempotencyMiddleware_call py now1 (TransactionCreateView_post py now1) r1 w)) =
       (fst (TransactionCreateView_post py now1 r1 w),
        snd (IdempotencyMiddleware_call py now1 (TransactionCreateView_post py now1) r1 w))"
proof -
  let ?v = "TransactionCreateView_post py now1"
  obtain wv where v: "?v r1 w = (Response d s, wv)"
    using assms(10) by (cases "?v r1 w") simp
  note fresh = create_view_fresh[OF assms(1-5) assms(7), of now1]
  have s: "s = 201"
    using fresh(1) v by (simp add: standard_response_def)
  have first: "IdempotencyMiddleware_call py now1 ?v r1 w =
      (Response d s, update_or_create now1 key (rq_method r1) (rq_path r1) s (PStr b) wv)"
    using first_request_stores[of r1 key w ?v "Response d s" wv py now1] assms v
    by (simp add: extract_body_def)
  have tv: "length (transactions wv) = Suc (length (transactions w))"
    using fresh(2) v by simp
  have qv: "queue wv = queue w @ [process_transaction_job (next_id (map tx_id (transactions w)))]"
    using fresh(3) v by simp
  from get_after_update_or_create[of key now1 "rq_method r1" "rq_path r1" s "PStr b" wv]
  obtain r where r:
      "get_idempotency_key key (update_or_create now1 key (rq_method r1) (rq_path r1) s (PStr b) wv)
         = Some r"
      "ik_response_status r = Some s" "ik_response_body r = PStr b"
    by blast
  have m2: "rq_method r2 = ''POST'' \<or> rq_method r2 = ''PUT''" using assms(9) by simp
  have replay: "IdempotencyMiddleware_call py now2 (TransactionCreateView_post py now2) r2
         (update_or_create now1 key (rq_method r1) (rq_path r1) s (PStr b) wv) =
       (Response d s, update_or_create now1 key (rq_method r1) (rq_path r1) s (PStr b) wv)"
    using replay_populated[OF assms(8) assms(5) m2 r(1), of py now2
        "TransactionCreateView_post py now2"] r assms(12)
    by simp
  from first replay v s tv qv show ?thesis
    by (simp add: update_or_create_frame)
qed

theorem duplicate_creation_is_replayed_witness:
  "fst (TransactionCreateView_post sample_json_py 7 sample_create_request sample_world)
     = Response sample_created 201 \<and>
   json_dumps sample_json_py sample_created = Some ''created'' \<and>
   json_loads sample_json_py ''created'' = Some sample_created \<and>
   fst (IdempotencyMiddleware_call sample_json_py 8 (TransactionCreateView_post sample_json_py 8)
          (sample_create_request\<lparr>rq_data := (rq_data sample_create_request)\<lparr>td_currency :=
             Given ''USD''\<rparr>\<rparr>)
          (snd (IdempotencyMiddleware_call sample_json_py 7
                  (TransactionCreateView_post sample_json_py 7) sample_create_request
                  sample_world)))
     = Response sample_created 201 \<and>
   length (transactions (snd (IdempotencyMiddleware_call sample_json_py 7
             (TransactionCreateView_post sample_json_py 7) sample_create_request sample_world)))
     = 2"
proof -
  let ?r2 = "sample_create_request\<lparr>rq_data := (rq_data sample_create_request)\<lparr>td_currency :=
             Given ''USD''\<rparr>\<rparr>"
  have a: "merchants sample_world (rq_user sample_create_request) = Some 10"
    by (simp add: sample_world_def sample_create_request_def)
  have b: "TransactionDetailSerializer_is_valid sample_json_py (rq_data sample_create_request)
             sample_world = Inr (5000, ''EUR'', None, sample_payment_key)"
    by (simp add: TransactionDetailSerializer_is_valid_def TransactionDetailSerializer_amount_def
        TransactionDetailSerializer_currency_def TransactionDetailSerializer_description_def
        TransactionDetailSerializer_payment_key_def validate_payment_key_def
        TransactionDetailSerializer_validate_amount_def get_payment_key_def
        validate_precision_def total_digits_def decimal_places_def whole_digits_def
        quantize_def of_digits_def Let_def
        sample_world_def sample_create_request_def sample_payment_key_def
        sample_json_py_def sample_py_def)
  have c: "pk_merchant sample_payment_key = 10" by (simp add: sample_payment_key_def)
  have e: "rq_idempotency_key sample_create_request = Some ''k1''"
      "rq_method sample_create_request = ''POST''"
      "rq_idempotency_key ?r2 = Some ''k1''" "rq_method ?r2 = ''POST''"
    by (simp_all add: sample_create_request_def)
  have ne: "''k1'' \<noteq> []" by simp
  have f: "get_idempotency_key ''k1'' sample_world = None"
    by (simp add: get_idempotency_key_def sample_world_def)
  have g: "fst (TransactionCreateView_post sample_json_py 7 sample_create_request sample_world)
     = Response sample_created 201"
    using create_view_fresh(1)[OF a b c e(1) ne f, of 7]
    by (simp add: standard_response_def TransactionDetailSerializer_data_def get_refund_def
        next_id_def sample_world_def sample_tx_def sample_created_def sample_json_py_def
        sample_py_def)
  have h: "json_dumps sample_json_py sample_created = Some ''created''"
      "json_loads sample_json_py ''created'' = Some sample_created"
    by (simp_all add: sample_json_py_def)
  have l: "length (transactions sample_world) = 1" by (simp add: sample_world_def)
  from duplicate_creation_is_replayed[OF a b c e(1) ne e(2) f e(3) e(4) g h, of 8] g h l
  show ?thesis by simp
qed

end
